theory Spec2Isabelle
  imports Complex_Main
begin

section \<open>Python values\<close>

text \<open>
  The geometric objects are values of the external geometry kernel; their type is the
  parameter \<open>'o\<close>. A Python variable that holds such an object or \<open>None\<close> is an
  \<open>'o option\<close>, with \<open>None\<close> for Python's \<open>None\<close>.
\<close>

type_synonym 'o pyval = "'o option"

text \<open>The two characters that the f-strings of the source write as \<open>'\<close> and \<open>\n\<close>.\<close>

definition apostrophe :: string where
  "apostrophe = [CHR 0x27]"

definition newline :: string where
  "newline = [CHR 0x0A]"

subsection \<open>Dictionaries\<close>

text \<open>
  A Python \<open>dict\<close> keeps its keys in the order of their first insertion; an assignment
  \<open>d[k] = v\<close> to a key that is present replaces the value where the key stands, and
  appends the pair otherwise. The association list below is the dict in that order.
\<close>

type_synonym ('k, 'v) pydict = "('k \<times> 'v) list"

fun dict_setitem :: "('k, 'v) pydict \<Rightarrow> 'k \<Rightarrow> 'v \<Rightarrow> ('k, 'v) pydict" where
  "dict_setitem [] k v = [(k, v)]"
| "dict_setitem ((k', v') # d) k v =
     (if k' = k then (k', v) # d else (k', v') # dict_setitem d k v)"

text \<open>\<open>d.get(k, default)\<close>\<close>

fun dict_get :: "('k, 'v) pydict \<Rightarrow> 'k \<Rightarrow> 'v \<Rightarrow> 'v" where
  "dict_get [] k dflt = dflt"
| "dict_get ((k', v') # d) k dflt = (if k' = k then v' else dict_get d k dflt)"

text \<open>\<open>list(d.keys())\<close>\<close>

definition dict_keys :: "('k, 'v) pydict \<Rightarrow> 'k list" where
  "dict_keys d = map fst d"

subsection \<open>List objects\<close>

text \<open>
  \<open>TopologicSession.messages\<close> is a reference to a list object: \<open>add_message\<close> appends
  to that object in place, \<open>get_messages\<close> builds a new list object and
  \<open>clear_messages\<close> binds the attribute to a new empty one. The store below holds the
  list objects allocated so far: \<open>cells\<close> gives the content at each address and every address
  below \<open>lim\<close> is allocated. The chat turns themselves (the dicts
  \<open>{"role": role, "content": content}\<close>) are never modified after their creation by any
  code of the session, so a list holds them by value.
\<close>

type_synonym addr = nat

type_synonym entry = "(string, string) pydict"

record store =
  cells :: "addr \<Rightarrow> entry list"
  lim :: addr

text \<open>A new list object with the given content; returns its address.\<close>

definition list_new :: "store \<Rightarrow> entry list \<Rightarrow> addr \<times> store" where
  "list_new h xs = (lim h, h\<lparr>cells := (cells h)(lim h := xs), lim := Suc (lim h)\<rparr>)"

text \<open>\<open>xs.append(x)\<close> on the list object at address \<open>a\<close>.\<close>

definition list_append :: "store \<Rightarrow> addr \<Rightarrow> entry \<Rightarrow> store" where
  "list_append h a x = h\<lparr>cells := (cells h)(a := cells h a @ [x])\<rparr>"

section \<open>session.py\<close>

text \<open>
  \<open>items\<close> is the dict of the session, held by value (no claim depends on its identity);
  \<open>messages\<close> is the address of the list object the attribute is bound to.
\<close>

record 'o TopologicSession =
  items :: "(string, 'o pyval) pydict"
  messages :: addr

text \<open>
  Every method takes \<open>self\<close> (and the store, when it touches \<open>messages\<close>) and returns
  its Python result together with what it has changed.
\<close>

definition init :: "store \<Rightarrow> 'o TopologicSession \<times> store" where
  "init h = (case list_new h [] of (a, h') \<Rightarrow> (\<lparr>items = [], messages = a\<rparr>, h'))"

definition add :: "'o TopologicSession \<Rightarrow> string \<Rightarrow> 'o pyval \<Rightarrow> string \<times> 'o TopologicSession" where
  "add self name obj =
     (''Object '' @ apostrophe @ name @ apostrophe @ '' saved.'',
      self\<lparr>items := dict_setitem (items self) name obj\<rparr>)"

definition get_all_names :: "'o TopologicSession \<Rightarrow> string list" where
  "get_all_names self = dict_keys (items self)"

definition get :: "'o TopologicSession \<Rightarrow> string \<Rightarrow> 'o pyval" where
  "get self name = dict_get (items self) name None"

definition add_message :: "store \<Rightarrow> 'o TopologicSession \<Rightarrow> string \<Rightarrow> string \<Rightarrow> entry \<times> store" where
  "add_message h self role content =
     (let entry = [(''role'', role), (''content'', content)]
      in (entry, list_append h (messages self) entry))"

definition get_messages :: "store \<Rightarrow> 'o TopologicSession \<Rightarrow> addr \<times> store" where
  "get_messages h self = list_new h (cells h (messages self))"

definition clear_messages :: "store \<Rightarrow> 'o TopologicSession \<Rightarrow> bool \<times> store \<times> 'o TopologicSession" where
  "clear_messages h self =
     (case list_new h [] of (a, h') \<Rightarrow> (True, h', self\<lparr>messages := a\<rparr>))"

text \<open>The chat history of a session: the content of the list object it refers to.\<close>

definition history :: "store \<Rightarrow> 'o TopologicSession \<Rightarrow> entry list" where
  "history h self = cells h (messages self)"

text \<open>The references of a session point to allocated objects.\<close>

definition wf_session :: "store \<Rightarrow> 'o TopologicSession \<Rightarrow> bool" where
  "wf_session h self \<longleftrightarrow> messages self < lim h"

section \<open>The external geometry kernel\<close>

text \<open>
  The constructors of the geometry kernel, its metadata calls and Python's own
  \<open>type(obj).__name__\<close> and \<open>str\<close> are not code of this repository: the tools are
  parametrised by them. Every call of the kernel may raise, and may return \<open>None\<close>.
  Dictionary objects of the kernel are values of \<open>'o\<close> like the shapes.
\<close>

datatype exn = TypeError | KernelError string

record 'o kernel =
  Vertex_ByCoordinates :: "real list \<Rightarrow> exn + 'o pyval"
  Edge_ByVertices :: "'o pyval \<Rightarrow> 'o pyval \<Rightarrow> exn + 'o pyval"
  Wire_ByVertices :: "'o pyval list \<Rightarrow> bool option \<Rightarrow> exn + 'o pyval"
  Face_ByVertices :: "'o pyval list \<Rightarrow> exn + 'o pyval"
  Face_Rectangle :: "'o pyval \<Rightarrow> real \<Rightarrow> real \<Rightarrow> exn + 'o pyval"
  Face_Circle :: "'o pyval \<Rightarrow> real \<Rightarrow> exn + 'o pyval"
  Cell_Cube :: "'o pyval \<Rightarrow> int \<Rightarrow> exn + 'o pyval"
  Cell_Prism :: "real \<Rightarrow> real \<Rightarrow> real \<Rightarrow> exn + 'o pyval"
  Cell_Cylinder :: "real \<Rightarrow> real \<Rightarrow> exn + 'o pyval"
  Dictionary_ByKeysValues :: "string list \<Rightarrow> string list \<Rightarrow> exn + 'o pyval"
  Topology_SetDictionary :: "'o pyval \<Rightarrow> 'o pyval \<Rightarrow> exn + 'o pyval"
  Vertex_Coordinates :: "'o \<Rightarrow> exn + real list"
  type_name :: "'o \<Rightarrow> string"
  str_floats :: "real list \<Rightarrow> string"

text \<open>An exception of a call leaves the calling function at once.\<close>

definition exn_bind :: "exn + 'a \<Rightarrow> ('a \<Rightarrow> exn + 'b) \<Rightarrow> exn + 'b" where
  "exn_bind m f = (case m of Inl e \<Rightarrow> Inl e | Inr x \<Rightarrow> f x)"

text \<open>The list comprehension \<open>[f(x) for x in xs]\<close> with a call that may raise.\<close>

fun map_exn :: "('a \<Rightarrow> exn + 'b) \<Rightarrow> 'a list \<Rightarrow> exn + 'b list" where
  "map_exn f [] = Inr []"
| "map_exn f (x # xs) =
     exn_bind (f x) (\<lambda>y. exn_bind (map_exn f xs) (\<lambda>ys. Inr (y # ys)))"

text \<open>
  \<open>Vertex.ByCoordinates(*origin)\<close> for an optional argument: unpacking \<open>None\<close> is a
  \<open>TypeError\<close>.
\<close>

definition unpack :: "'a list option \<Rightarrow> exn + 'a list" where
  "unpack arg = (case arg of None \<Rightarrow> Inl TypeError | Some xs \<Rightarrow> Inr xs)"

section \<open>common.py\<close>

definition assign_name :: "'o kernel \<Rightarrow> 'o pyval \<Rightarrow> string \<Rightarrow> exn + 'o pyval" where
  "assign_name K obj name =
     (let keys = [''name'']; values = [name]
      in exn_bind (Dictionary_ByKeysValues K keys values)
           (\<lambda>config. Topology_SetDictionary K obj config))"

section \<open>tools.py\<close>

text \<open>
  A tool receives the session as \<open>runtime.context.session\<close>; it returns its string and
  the session as it has left it, or raises. The argument \<open>tok\<close> is the text of
  \<open>uuid.uuid4()\<close> at this call, read only where the source calls it.
\<close>

type_synonym 'o tool_result = "exn + string \<times> 'o TopologicSession"

definition create_cylinder ::
  "'o kernel \<Rightarrow> 'o TopologicSession \<Rightarrow> real \<Rightarrow> real \<Rightarrow> string option \<Rightarrow> string \<Rightarrow> 'o tool_result" where
  "create_cylinder K session radius height name tok =
     (let name = (case name of None \<Rightarrow> ''cylinder '' @ tok | Some n \<Rightarrow> n)
      in exn_bind (Cell_Cylinder K radius height) (\<lambda>cylinder.
         exn_bind (assign_name K cylinder name) (\<lambda>cylinder.
         Inr (''A cylinder with name '' @ name @ '' has been created and registered'',
              snd (add session name cylinder)))))"

definition create_prism ::
  "'o kernel \<Rightarrow> 'o TopologicSession \<Rightarrow> real \<Rightarrow> real \<Rightarrow> real \<Rightarrow> string option \<Rightarrow> string \<Rightarrow> 'o tool_result" where
  "create_prism K session width len height name tok =
     (let name = (case name of None \<Rightarrow> ''prism '' @ tok | Some n \<Rightarrow> n)
      in exn_bind (Cell_Prism K width len height) (\<lambda>prism.
         exn_bind (assign_name K prism name) (\<lambda>prism.
         Inr (''A prism with name '' @ name @ '' has been created and registered'',
              snd (add session name prism)))))"

text \<open>The optional \<open>origin\<close> is turned into a vertex when it is given.\<close>

definition origin_vertex :: "'o kernel \<Rightarrow> real list option \<Rightarrow> exn + 'o pyval" where
  "origin_vertex K origin =
     (case origin of None \<Rightarrow> Inr None | Some cs \<Rightarrow> Vertex_ByCoordinates K cs)"

definition create_circle ::
  "'o kernel \<Rightarrow> 'o TopologicSession \<Rightarrow> real \<Rightarrow> real list option \<Rightarrow> string option \<Rightarrow> string \<Rightarrow> 'o tool_result" where
  "create_circle K session radius origin name tok =
     exn_bind (origin_vertex K origin) (\<lambda>origin.
       (let name = (case name of None \<Rightarrow> ''circle '' @ tok | Some n \<Rightarrow> n)
        in exn_bind (Face_Circle K origin radius) (\<lambda>circle.
           exn_bind (assign_name K circle name) (\<lambda>circle.
           Inr (''A circle with name '' @ name @ '' has been created and registered'',
                snd (add session name circle))))))"

definition create_rectangle ::
  "'o kernel \<Rightarrow> 'o TopologicSession \<Rightarrow> real \<Rightarrow> real \<Rightarrow> real list option \<Rightarrow> string option \<Rightarrow> string \<Rightarrow> 'o tool_result" where
  "create_rectangle K session len width origin name tok =
     exn_bind (origin_vertex K origin) (\<lambda>origin.
       (let name = (case name of None \<Rightarrow> ''rectangle '' @ tok | Some n \<Rightarrow> n)
        in exn_bind (Face_Rectangle K origin len width) (\<lambda>rectangle.
           exn_bind (assign_name K rectangle name) (\<lambda>rectangle.
           Inr (''A rectangle with name '' @ name @ '' has been created and registered'',
                snd (add session name rectangle))))))"

definition create_face ::
  "'o kernel \<Rightarrow> 'o TopologicSession \<Rightarrow> real list list \<Rightarrow> string option \<Rightarrow> string \<Rightarrow> 'o tool_result" where
  "create_face K session points name tok =
     (if length points < 3
      then Inr (''Error: At least three points are required to create a face.'', session)
      else
       (let name = (case name of None \<Rightarrow> ''face '' @ tok | Some n \<Rightarrow> n)
        in exn_bind (map_exn (Vertex_ByCoordinates K) points) (\<lambda>vertices.
           exn_bind (Face_ByVertices K vertices) (\<lambda>face.
           exn_bind (assign_name K face name) (\<lambda>face.
           Inr (''A face with name '' @ name @ '' has been created and registered'',
                snd (add session name face)))))))"

definition create_wire ::
  "'o kernel \<Rightarrow> 'o TopologicSession \<Rightarrow> real list list \<Rightarrow> bool option \<Rightarrow> string option \<Rightarrow> string \<Rightarrow> 'o tool_result" where
  "create_wire K session points is_closed name tok =
     (if length points < 2
      then Inr (''Error: At least two points are required to create a wire.'', session)
      else
       (let name = (case name of None \<Rightarrow> ''wire '' @ tok | Some n \<Rightarrow> n)
        in exn_bind (map_exn (Vertex_ByCoordinates K) points) (\<lambda>vertices.
           exn_bind (Wire_ByVertices K vertices is_closed) (\<lambda>wire.
           exn_bind (assign_name K wire name) (\<lambda>wire.
           Inr (''A wire with name '' @ name @ '' has been created and registered'',
                snd (add session name wire)))))))"

text \<open>The default of \<open>position\<close>, bound when the argument is omitted.\<close>

definition create_vertex_position_default :: "real list option" where
  "create_vertex_position_default = Some [0, 0, 0]"

definition create_vertex ::
  "'o kernel \<Rightarrow> 'o TopologicSession \<Rightarrow> real list option \<Rightarrow> string option \<Rightarrow> string \<Rightarrow> 'o tool_result" where
  "create_vertex K session position name tok =
     (let name = (case name of None \<Rightarrow> ''vertex '' @ tok | Some n \<Rightarrow> n)
      in exn_bind (unpack position) (\<lambda>cs.
         exn_bind (Vertex_ByCoordinates K cs) (\<lambda>vertex.
         exn_bind (assign_name K vertex name) (\<lambda>vertex.
         Inr (''A vertex with name '' @ name @ '' has been created and registered'',
              snd (add session name vertex))))))"

definition create_edge ::
  "'o kernel \<Rightarrow> 'o TopologicSession \<Rightarrow> real list \<Rightarrow> real list \<Rightarrow> string option \<Rightarrow> string \<Rightarrow> 'o tool_result" where
  "create_edge K session start end_pt name tok =
     (let name = (case name of None \<Rightarrow> ''edge '' @ tok | Some n \<Rightarrow> n)
      in exn_bind (Vertex_ByCoordinates K start) (\<lambda>start_vertex.
         exn_bind (Vertex_ByCoordinates K end_pt) (\<lambda>end_vertex.
         exn_bind (Edge_ByVertices K start_vertex end_vertex) (\<lambda>edge.
         exn_bind (assign_name K edge name) (\<lambda>edge.
         Inr (''An edge with name '' @ name @ '' has been created and registered'',
              snd (add session name edge)))))))"

definition create_cube ::
  "'o kernel \<Rightarrow> 'o TopologicSession \<Rightarrow> int \<Rightarrow> real list option \<Rightarrow> string option \<Rightarrow> string \<Rightarrow> 'o tool_result" where
  "create_cube K session sz origin name tok =
     exn_bind (origin_vertex K origin) (\<lambda>origin.
       (let name = (case name of None \<Rightarrow> ''cube '' @ tok | Some n \<Rightarrow> n)
        in exn_bind (Cell_Cube K origin sz) (\<lambda>cube.
           exn_bind (assign_name K cube name) (\<lambda>cube.
           Inr (''A cube with name '' @ name @ '' has been created and registered'',
                snd (add session name cube))))))"

definition get_object_info :: "'o kernel \<Rightarrow> 'o TopologicSession \<Rightarrow> string \<Rightarrow> exn + string" where
  "get_object_info K session name =
     (case get session name of
        None \<Rightarrow> Inr (''No object found with the name '' @ apostrophe @ name @ apostrophe @ ''.'')
      | Some obj \<Rightarrow>
          (let obj_type = type_name K obj
           in if obj_type = ''Vertex''
              then exn_bind (Vertex_Coordinates K obj) (\<lambda>coords.
                     Inr (''Object '' @ apostrophe @ name @ apostrophe
                          @ '' is a Vertex located at coordinates '' @ str_floats K coords @ ''.''))
              else Inr (''Object '' @ apostrophe @ name @ apostrophe @ '' is of type ''
                        @ apostrophe @ obj_type @ apostrophe @ ''.'')))"

text \<open>\<open>sep.join(xs)\<close>\<close>

fun join :: "string \<Rightarrow> string list \<Rightarrow> string" where
  "join sep [] = []"
| "join sep [x] = x"
| "join sep (x # y # ys) = x @ sep @ join sep (y # ys)"

definition list_session_items :: "'o TopologicSession \<Rightarrow> string" where
  "list_session_items session =
     (let names = get_all_names session
      in if names = [] then ''The session is empty.''
         else (let item_list = join newline (map (\<lambda>name. ''- '' @ name) names)
               in ''Current session items:'' @ newline @ item_list))"

definition clear_session :: "'o TopologicSession \<Rightarrow> string \<times> 'o TopologicSession" where
  "clear_session session = (''The session has been deleted'', session\<lparr>items := []\<rparr>)"

section \<open>Tool calls as the agent issues them\<close>

text \<open>
  The agent of \<open>app.py\<close> is given the tools as a list and calls one of them by name with
  its arguments. A call of a shape-creation tool is a value of \<open>tool_call\<close>, and
  \<open>invoke\<close> runs the tool it names.
\<close>

datatype tool_call =
    CreateCylinder real real "string option"
  | CreatePrism real real real "string option"
  | CreateCircle real "real list option" "string option"
  | CreateRectangle real real "real list option" "string option"
  | CreateFace "real list list" "string option"
  | CreateWire "real list list" "bool option" "string option"
  | CreateVertex "real list option" "string option"
  | CreateEdge "real list" "real list" "string option"
  | CreateCube int "real list option" "string option"

fun invoke :: "'o kernel \<Rightarrow> 'o TopologicSession \<Rightarrow> tool_call \<Rightarrow> string \<Rightarrow> 'o tool_result" where
  "invoke K s (CreateCylinder radius height name) tok = create_cylinder K s radius height name tok"
| "invoke K s (CreatePrism width len height name) tok = create_prism K s width len height name tok"
| "invoke K s (CreateCircle radius origin name) tok = create_circle K s radius origin name tok"
| "invoke K s (CreateRectangle len width origin name) tok = create_rectangle K s len width origin name tok"
| "invoke K s (CreateFace points name) tok = create_face K s points name tok"
| "invoke K s (CreateWire points is_closed name) tok = create_wire K s points is_closed name tok"
| "invoke K s (CreateVertex position name) tok = create_vertex K s position name tok"
| "invoke K s (CreateEdge start end_pt name) tok = create_edge K s start end_pt name tok"
| "invoke K s (CreateCube sz origin name) tok = create_cube K s sz origin name tok"

section \<open>The vocabulary of the specification\<close>

text \<open>The shape kind of a call, its \<open>name\<close> argument and its structural precondition.\<close>

fun shape_kind :: "tool_call \<Rightarrow> string" where
  "shape_kind (CreateCylinder _ _ _) = ''cylinder''"
| "shape_kind (CreatePrism _ _ _ _) = ''prism''"
| "shape_kind (CreateCircle _ _ _) = ''circle''"
| "shape_kind (CreateRectangle _ _ _ _) = ''rectangle''"
| "shape_kind (CreateFace _ _) = ''face''"
| "shape_kind (CreateWire _ _ _) = ''wire''"
| "shape_kind (CreateVertex _ _) = ''vertex''"
| "shape_kind (CreateEdge _ _ _) = ''edge''"
| "shape_kind (CreateCube _ _ _) = ''cube''"

fun name_arg :: "tool_call \<Rightarrow> string option" where
  "name_arg (CreateCylinder _ _ name) = name"
| "name_arg (CreatePrism _ _ _ name) = name"
| "name_arg (CreateCircle _ _ name) = name"
| "name_arg (CreateRectangle _ _ _ name) = name"
| "name_arg (CreateFace _ name) = name"
| "name_arg (CreateWire _ _ name) = name"
| "name_arg (CreateVertex _ name) = name"
| "name_arg (CreateEdge _ _ name) = name"
| "name_arg (CreateCube _ _ name) = name"

fun precondition :: "tool_call \<Rightarrow> bool" where
  "precondition (CreateFace points _) = (3 \<le> length points)"
| "precondition (CreateWire points _ _) = (2 \<le> length points)"
| "precondition _ = True"

text \<open>The name a call is to use: the one given, or the shape kind and the token.\<close>

definition name_of_call :: "tool_call \<Rightarrow> string \<Rightarrow> string" where
  "name_of_call c tok =
     (case name_arg c of None \<Rightarrow> shape_kind c @ '' '' @ tok | Some n \<Rightarrow> n)"

text \<open>The confirmation of a creation, with the article of the shape kind.\<close>

definition confirmation :: "string \<Rightarrow> string \<Rightarrow> string" where
  "confirmation kind name =
     (if kind = ''edge'' then ''An '' else ''A '') @ kind @ '' with name '' @ name
       @ '' has been created and registered''"

text \<open>The names of a sequence, each at its first occurrence.\<close>

function first_occurrences :: "'a list \<Rightarrow> 'a list" where
  "first_occurrences [] = []"
| "first_occurrences (x # xs) = x # first_occurrences (removeAll x xs)"
  by pat_completeness auto
termination
  by (relation "measure length") (auto simp: less_Suc_eq_le)

text \<open>A sequence of \<open>add\<close> calls on a session.\<close>

fun add_all :: "'o TopologicSession \<Rightarrow> (string \<times> 'o pyval) list \<Rightarrow> 'o TopologicSession" where
  "add_all s [] = s"
| "add_all s ((name, obj) # rest) = add_all (snd (add s name obj)) rest"

text \<open>A sequence of \<open>add_message\<close> and \<open>clear_messages\<close> calls on a session.\<close>

datatype message_call = AddMessage string string | ClearMessages

fun message_calls :: "store \<times> 'o TopologicSession \<Rightarrow> message_call list \<Rightarrow> store \<times> 'o TopologicSession" where
  "message_calls (h, s) [] = (h, s)"
| "message_calls (h, s) (AddMessage role content # cs) =
     message_calls (snd (add_message h s role content), s) cs"
| "message_calls (h, s) (ClearMessages # cs) =
     message_calls (snd (clear_messages h s)) cs"

text \<open>
  The state of a session as the specification's data model has it: the items and the
  sequence of chat turns, without the identity of the list object.
\<close>

definition session_state :: "store \<Rightarrow> 'o TopologicSession \<Rightarrow> (string, 'o pyval) pydict \<times> entry list" where
  "session_state h s = (items s, history h s)"

text \<open>The lines of a text: Python's \<open>text.split("\n")\<close>.\<close>

fun lines_of :: "string \<Rightarrow> string list" where
  "lines_of [] = [[]]"
| "lines_of (c # cs) =
     (if c = CHR 0x0A then [] # lines_of cs
      else (case lines_of cs of [] \<Rightarrow> [[c]] | l # ls \<Rightarrow> (c # l) # ls))"

section \<open>A kernel for the examples\<close>

text \<open>
  The examples run the tools on a small kernel whose objects record their type name and
  their dictionary, and whose constructors take any arguments.
\<close>

datatype example_object =
    Shape string "(string \<times> string) list"
  | Dict "(string \<times> string) list"

definition example_set_dictionary ::
  "example_object pyval \<Rightarrow> example_object pyval \<Rightarrow> exn + example_object pyval" where
  "example_set_dictionary obj config =
     (case (obj, config) of
        (Some (Shape t _), Some (Dict kvs)) \<Rightarrow> Inr (Some (Shape t kvs))
      | _ \<Rightarrow> Inr None)"

definition example_kernel :: "example_object kernel" where
  "example_kernel =
     \<lparr> Vertex_ByCoordinates = (\<lambda>_. Inr (Some (Shape ''Vertex'' []))),
       Edge_ByVertices = (\<lambda>_ _. Inr (Some (Shape ''Edge'' []))),
       Wire_ByVertices = (\<lambda>_ _. Inr (Some (Shape ''Wire'' []))),
       Face_ByVertices = (\<lambda>_. Inr (Some (Shape ''Face'' []))),
       Face_Rectangle = (\<lambda>_ _ _. Inr (Some (Shape ''Face'' []))),
       Face_Circle = (\<lambda>_ _. Inr (Some (Shape ''Face'' []))),
       Cell_Cube = (\<lambda>_ _. Inr (Some (Shape ''Cell'' []))),
       Cell_Prism = (\<lambda>_ _ _. Inr (Some (Shape ''Cell'' []))),
       Cell_Cylinder = (\<lambda>_ _. Inr (Some (Shape ''Cell'' []))),
       Dictionary_ByKeysValues = (\<lambda>ks vs. Inr (Some (Dict (zip ks vs)))),
       Topology_SetDictionary = example_set_dictionary,
       Vertex_Coordinates = (\<lambda>_. Inr [0, 0, 0]),
       type_name = (\<lambda>obj. case obj of Shape t _ \<Rightarrow> t | Dict _ \<Rightarrow> ''Dictionary''),
       str_floats = (\<lambda>_. ''[0.0, 0.0, 0.0]'') \<rparr>"

text \<open>The store before any list object and the session created on it.\<close>

definition store0 :: store where
  "store0 = \<lparr>cells = (\<lambda>_. []), lim = 0\<rparr>"

definition session0 :: "example_object TopologicSession" where
  "session0 = fst (init store0)"

text \<open>The store after the creation of that session.\<close>

definition store1 :: store where
  "store1 = snd (init store0 :: example_object TopologicSession \<times> store)"

text \<open>Two texts of \<open>uuid.uuid4()\<close>.\<close>

definition token1 :: string where
  "token1 = ''123e4567-e89b-42d3-a456-426614174000''"


text \<open>A name of two lines.\<close>

definition two_line_name :: string where
  "two_line_name = ''x'' @ newline @ ''y''"

section \<open>Facts about dictionaries and the store of objects\<close>

lemma dict_get_setitem_same: "dict_get (dict_setitem d k v) k dflt = v"
  by (induction d) auto

lemma dict_get_setitem_other:
  "k' \<noteq> k \<Longrightarrow> dict_get (dict_setitem d k v) k' dflt = dict_get d k' dflt"
  by (induction d) auto

lemma dict_keys_setitem:
  "dict_keys (dict_setitem d k v) =
     (if k \<in> set (dict_keys d) then dict_keys d else dict_keys d @ [k])"
  by (induction d) (force simp: dict_keys_def)+

lemma dict_get_absent: "k \<notin> set (dict_keys d) \<Longrightarrow> dict_get d k dflt = dflt"
  by (induction d) (auto simp: dict_keys_def)

lemma get_add_same: "get (snd (add s name obj)) name = obj"
  by (simp add: get_def add_def dict_get_setitem_same)

lemma get_add_other: "other \<noteq> name \<Longrightarrow> get (snd (add s name obj)) other = get s other"
  by (simp add: get_def add_def dict_get_setitem_other)

lemma names_add:
  "get_all_names (snd (add s name obj)) =
     (if name \<in> set (get_all_names s) then get_all_names s else get_all_names s @ [name])"
  by (simp add: get_all_names_def add_def dict_keys_setitem)

lemma lines_of_line: "CHR 0x0A \<notin> set x \<Longrightarrow> lines_of (x @ newline @ rest) = x # lines_of rest"
  by (induction x) (auto simp: newline_def)

lemma lines_of_single: "CHR 0x0A \<notin> set x \<Longrightarrow> lines_of x = [x]"
  by (induction x) auto

lemma lines_of_join:
  "xs \<noteq> [] \<Longrightarrow> \<forall>x\<in>set xs. CHR 0x0A \<notin> set x \<Longrightarrow> lines_of (join newline xs) = xs"
  by (induction newline xs rule: join.induct) (auto simp: lines_of_line lines_of_single)

lemma set_first_occurrences: "set (first_occurrences xs) = set xs"
  by (induction xs rule: first_occurrences.induct) auto

lemma distinct_first_occurrences: "distinct (first_occurrences xs)"
  by (induction xs rule: first_occurrences.induct) (auto simp: set_first_occurrences)

lemma first_occurrences_again:
  "n \<in> set ks \<Longrightarrow> first_occurrences (ks @ n # r) = first_occurrences (ks @ r)"
proof (induction ks arbitrary: r rule: first_occurrences.induct)
  case 1
  then show ?case by simp
next
  case (2 x xs)
  show ?case
  proof (cases "x = n")
    case True
    then show ?thesis by simp
  next
    case False
    with "2.prems" have "n \<in> set (removeAll x xs)" by simp
    from "2.IH" [OF this, of "removeAll x r"] False show ?thesis by simp
  qed
qed

lemma first_occurrences_distinct: "distinct xs \<Longrightarrow> first_occurrences xs = xs"
  by (induction xs) (auto simp: distinct_removeAll)

lemma distinct_names_add:
  "distinct (get_all_names s) \<Longrightarrow> distinct (get_all_names (snd (add s name obj)))"
  by (simp add: names_add)

lemma names_add_all:
  "distinct (get_all_names s) \<Longrightarrow>
   get_all_names (add_all s adds) = first_occurrences (get_all_names s @ map fst adds)"
proof (induction adds arbitrary: s)
  case Nil
  then show ?case by (simp add: first_occurrences_distinct)
next
  case (Cons a adds)
  obtain name obj where a: "a = (name, obj)" by (cases a)
  have "get_all_names (add_all (snd (add s name obj)) adds)
          = first_occurrences (get_all_names (snd (add s name obj)) @ map fst adds)"
    using Cons.IH [OF distinct_names_add [OF Cons.prems]] .
  then show ?case
    by (simp add: a names_add first_occurrences_again)
qed

lemma names_init: "get_all_names (fst (init h)) = []"
  by (simp add: init_def list_new_def get_all_names_def dict_keys_def)

lemma message_calls_keeps:
  "messages s < lim h \<Longrightarrow> r < lim h \<Longrightarrow> r \<noteq> messages s \<Longrightarrow>
   cells (fst (message_calls (h, s) cs)) r = cells h r"
proof (induction cs arbitrary: h s)
  case Nil
  then show ?case by simp
next
  case (Cons c cs)
  show ?case
  proof (cases c)
    case (AddMessage role content)
    let ?h = "snd (add_message h s role content)"
    have "lim ?h = lim h" and "cells ?h r = cells h r"
      using Cons.prems by (simp_all add: add_message_def list_append_def Let_def)
    with Cons.IH [of s ?h] Cons.prems AddMessage show ?thesis by simp
  next
    case ClearMessages
    obtain h' s' where c: "snd (clear_messages h s) = (h', s')" by (cases "snd (clear_messages h s)")
    then have "messages s' < lim h'" and "r < lim h'" and "r \<noteq> messages s'"
      and "cells h' r = cells h r"
      using Cons.prems by (auto simp: clear_messages_def list_new_def)
    with Cons.IH [of s' h'] c ClearMessages show ?thesis by simp
  qed
qed

lemma invoke_created:
  assumes "invoke K s c tok = Inr (msg, s')" and "precondition c"
  shows "\<exists>raw obj. assign_name K raw (name_of_call c tok) = Inr obj
           \<and> s' = snd (add s (name_of_call c tok) obj)
           \<and> msg = confirmation (shape_kind c) (name_of_call c tok)"
proof (cases c)
  case (CreateCylinder radius height name)
  with assms show ?thesis
    by (auto simp: create_cylinder_def name_of_call_def confirmation_def exn_bind_def Let_def
          split: sum.splits option.splits)
next
  case (CreatePrism width len height name)
  with assms show ?thesis
    by (auto simp: create_prism_def name_of_call_def confirmation_def exn_bind_def Let_def
          split: sum.splits option.splits)
next
  case (CreateCircle radius origin name)
  with assms show ?thesis
    by (auto simp: create_circle_def name_of_call_def confirmation_def exn_bind_def Let_def
          split: sum.splits option.splits)
next
  case (CreateRectangle len width origin name)
  with assms show ?thesis
    by (auto simp: create_rectangle_def name_of_call_def confirmation_def exn_bind_def Let_def
          split: sum.splits option.splits)
next
  case (CreateFace points name)
  with assms show ?thesis
    by (auto simp: create_face_def name_of_call_def confirmation_def exn_bind_def Let_def
          split: sum.splits option.splits)
next
  case (CreateWire points is_closed name)
  with assms show ?thesis
    by (auto simp: create_wire_def name_of_call_def confirmation_def exn_bind_def Let_def
          split: sum.splits option.splits)
next
  case (CreateVertex position name)
  with assms show ?thesis
    by (auto simp: create_vertex_def name_of_call_def confirmation_def exn_bind_def Let_def
          split: sum.splits option.splits)
next
  case (CreateEdge start end_pt name)
  with assms show ?thesis
    by (auto simp: create_edge_def name_of_call_def confirmation_def exn_bind_def Let_def
          split: sum.splits option.splits)
next
  case (CreateCube sz origin name)
  with assms show ?thesis
    by (auto simp: create_cube_def name_of_call_def confirmation_def exn_bind_def Let_def
          split: sum.splits option.splits)
qed




section \<open>The Object Store\<close>

text \<open>
  C2. In every session, for every name and object, \<open>add\<close> returns its confirmation (it
  has no failing branch) and a following \<open>get\<close> of the name returns the object added.
  When the name is already present the call is the same: the earlier entry is replaced,
  the names of the session stay as they are, and every other name keeps its object.
\<close>

theorem add_then_get:
  "get (snd (add s name obj)) name = obj
   \<and> fst (add s name obj) = ''Object '' @ apostrophe @ name @ apostrophe @ '' saved.''
   \<and> (name \<in> set (get_all_names s) \<longrightarrow>
        get_all_names (snd (add s name obj)) = get_all_names s)
   \<and> (\<forall>other. other \<noteq> name \<longrightarrow> get (snd (add s name obj)) other = get s other)"
  by (simp add: get_add_same get_add_other names_add) (simp add: add_def)

theorem add_then_get_witness:
  "''c1'' \<in> set (get_all_names (snd (add session0 ''c1'' (Some (Shape ''Cell'' [])))))
   \<and> ''c2'' \<noteq> ''c1''
   \<and> get (snd (add (snd (add session0 ''c1'' (Some (Shape ''Cell'' []))))
                    ''c1'' (Some (Shape ''Face'' [])))) ''c1''
       = Some (Shape ''Face'' [])
   \<and> get_all_names (snd (add (snd (add session0 ''c1'' (Some (Shape ''Cell'' []))))
                              ''c1'' (Some (Shape ''Face'' []))))
       = [''c1'']
   \<and> get (snd (add (snd (add session0 ''c1'' (Some (Shape ''Cell'' []))))
                    ''c1'' (Some (Shape ''Face'' [])))) ''c2''
       = None"
  using add_then_get [of "snd (add session0 ''c1'' (Some (Shape ''Cell'' [])))" "''c1''"
                         "Some (Shape ''Face'' [])"]
  by (simp add: session0_def init_def store0_def list_new_def add_def get_def
        get_all_names_def dict_keys_def)

text \<open>
  C3. In every session, \<open>clear_session\<close> leaves no item and keeps the reference and the
  content of the chat history; \<open>clear_messages\<close> leaves an empty chat history and keeps
  the items.
\<close>

theorem clear_frames:
  "items (snd (clear_session s)) = []
   \<and> messages (snd (clear_session s)) = messages s
   \<and> history h (snd (clear_session s)) = history h s
   \<and> (case clear_messages h s of (r, h', s') \<Rightarrow> history h' s' = [] \<and> items s' = items s)"
  by (simp add: clear_session_def clear_messages_def history_def list_new_def)

text \<open>
  C8. Clearing resets its target and is idempotent. \<open>clear_messages\<close> leaves an empty
  history, and a second call leaves the same items and the same (empty) history and
  returns the same value; the items are cleared by the tool \<open>clear_session\<close> (the
  session has no method for it), which leaves no item, and a second call returns the same
  string and the same session.
\<close>

theorem clear_idempotent:
  "(case clear_messages h s of (r1, h1, s1) \<Rightarrow>
      (case clear_messages h1 s1 of (r2, h2, s2) \<Rightarrow>
         history h1 s1 = [] \<and> session_state h2 s2 = session_state h1 s1 \<and> r2 = r1))
   \<and> items (snd (clear_session s)) = []
   \<and> clear_session (snd (clear_session s)) = clear_session s"
  by (simp add: clear_session_def clear_messages_def history_def list_new_def
        session_state_def)

text \<open>
  C9. After any sequence of \<open>add\<close> calls on a new session, \<open>get_all_names\<close> returns
  the names added, each once, in the order of their first \<open>add\<close>; adding a name again
  replaces its object and leaves the list of names as it is.
\<close>

theorem names_in_insertion_order:
  "get_all_names (add_all (fst (init h)) adds) = first_occurrences (map fst adds)
   \<and> distinct (get_all_names (add_all (fst (init h)) adds))
   \<and> set (get_all_names (add_all (fst (init h)) adds)) = set (map fst adds)
   \<and> (name \<in> set (map fst adds) \<longrightarrow>
        get_all_names (snd (add (add_all (fst (init h)) adds) name obj))
          = get_all_names (add_all (fst (init h)) adds)
        \<and> get (snd (add (add_all (fst (init h)) adds) name obj)) name = obj)"
proof -
  have "get_all_names (add_all (fst (init h)) adds) = first_occurrences (map fst adds)"
    using names_add_all [of "fst (init h)" adds] by (simp add: names_init)
  then show ?thesis
    by (simp add: distinct_first_occurrences set_first_occurrences names_add get_add_same)
qed

theorem names_in_insertion_order_witness:
  "get_all_names (add_all (fst (init store0))
      [(''b'', Some (Shape ''Cell'' [])), (''a'', None), (''b'', None), (''c'', None)])
     = [''b'', ''a'', ''c'']
   \<and> ''a'' \<in> set (map fst [(''b'', Some (Shape ''Cell'' [])), (''a'', None), (''b'', None), (''c'', None)])
   \<and> get_all_names (snd (add (add_all (fst (init store0))
        [(''b'', Some (Shape ''Cell'' [])), (''a'', None), (''b'', None), (''c'', None)])
        ''a'' (Some (Shape ''Face'' []))))
     = [''b'', ''a'', ''c'']
   \<and> get (snd (add (add_all (fst (init store0))
        [(''b'', Some (Shape ''Cell'' [])), (''a'', None), (''b'', None), (''c'', None)])
        ''a'' (Some (Shape ''Face'' [])))) ''a''
     = Some (Shape ''Face'' [])"
  using names_in_insertion_order [of store0
      "[(''b'', Some (Shape ''Cell'' [])), (''a'', None), (''b'', None), (''c'', None)]"
      "''a''" "Some (Shape ''Face'' [])"]
  by (simp add: init_def store0_def list_new_def add_def get_def get_all_names_def dict_keys_def)

text \<open>
  C5. \<open>get_messages\<close> returns a new list object, not the one the session refers to,
  holding the chat history of the moment of the call; whatever \<open>add_message\<close> and
  \<open>clear_messages\<close> calls follow on the session, the content of the returned list stays
  that history.
\<close>

theorem get_messages_snapshot:
  assumes "wf_session h s" and "get_messages h s = (r, h1)"
  shows "r \<noteq> messages s
         \<and> cells h1 r = history h s
         \<and> history h1 s = history h s
         \<and> cells (fst (message_calls (h1, s) cs)) r = history h s"
proof -
  from assms have r: "r = lim h" and h1: "h1 = h\<lparr>cells := (cells h)(lim h := cells h (messages s)), lim := Suc (lim h)\<rparr>"
    by (auto simp: get_messages_def list_new_def)
  from assms(1) have lt: "messages s < lim h" by (simp add: wf_session_def)
  have "cells (fst (message_calls (h1, s) cs)) r = cells h1 r"
    by (rule message_calls_keeps) (use lt r h1 in auto)
  then show ?thesis using lt r h1 by (auto simp: history_def)
qed

theorem get_messages_snapshot_witness:
  "wf_session (snd (add_message store1 session0 ''user'' ''hi'')) session0
   \<and> fst (get_messages (snd (add_message store1 session0 ''user'' ''hi'')) session0)
       \<noteq> messages session0
   \<and> cells (fst (message_calls
          (snd (get_messages (snd (add_message store1 session0 ''user'' ''hi'')) session0),
           session0)
          [AddMessage ''assistant'' ''ok'', ClearMessages, AddMessage ''user'' ''x'']))
        (fst (get_messages (snd (add_message store1 session0 ''user'' ''hi'')) session0))
       = [[(''role'', ''user''), (''content'', ''hi'')]]
   \<and> (case message_calls
          (snd (get_messages (snd (add_message store1 session0 ''user'' ''hi'')) session0),
           session0)
          [AddMessage ''assistant'' ''ok'', ClearMessages, AddMessage ''user'' ''x'']
        of (h, s) \<Rightarrow> history h s = [[(''role'', ''user''), (''content'', ''x'')]])"
proof -
  let ?h = "snd (add_message store1 session0 ''user'' ''hi'')"
  have w: "wf_session ?h session0"
    by (simp add: wf_session_def session0_def store1_def init_def store0_def list_new_def add_message_def
          list_append_def Let_def)
  have "history ?h session0 = [[(''role'', ''user''), (''content'', ''hi'')]]"
    by (simp add: history_def session0_def store1_def init_def store0_def list_new_def add_message_def
          list_append_def Let_def)
  with get_messages_snapshot [OF w surjective_pairing,
      of "[AddMessage ''assistant'' ''ok'', ClearMessages, AddMessage ''user'' ''x'']"] w
  show ?thesis
    by (simp add: history_def session0_def store1_def init_def store0_def list_new_def
          add_message_def list_append_def Let_def get_messages_def clear_messages_def)
qed

section \<open>The tools\<close>

text \<open>
  C1. A call of \<open>create_face\<close> with fewer than three points, or of \<open>create_wire\<close>
  with fewer than two, does not raise: it returns its error string (for the face,
  \<open>Error: At least three points are required to create a face.\<close>) and the session
  as it was, whatever the kernel, the name and the other arguments are.
\<close>

theorem precondition_violated:
  "(length points < 3 \<longrightarrow>
      create_face K s points name tok
        = Inr (''Error: At least three points are required to create a face.'', s))
   \<and> (length points < 2 \<longrightarrow>
      create_wire K s points is_closed name tok
        = Inr (''Error: At least two points are required to create a wire.'', s))
   \<and> (\<not> precondition c \<longrightarrow> (\<exists>msg. invoke K s c tok = Inr (msg, s)))"
  by (cases c) (simp_all add: create_face_def create_wire_def)

theorem precondition_violated_witness:
  "length [[0, 0], [1, 0 :: real]] < 3
   \<and> create_face example_kernel session0 [[0, 0], [1, 0]] None token1
        = Inr (''Error: At least three points are required to create a face.'', session0)
   \<and> length [[0, 0, 0 :: real]] < 2
   \<and> create_wire example_kernel session0 [[0, 0, 0]] (Some True) None token1
        = Inr (''Error: At least two points are required to create a wire.'', session0)
   \<and> \<not> precondition (CreateFace [[0, 0], [1, 0]] None)
   \<and> (\<exists>msg. invoke example_kernel session0 (CreateFace [[0, 0], [1, 0]] None) token1
               = Inr (msg, session0))"
  using precondition_violated [of "[[0, 0], [1, 0]]" example_kernel session0 None token1
      "Some True" "CreateFace [[0, 0], [1, 0]] None"]
    precondition_violated [of "[[0, 0, 0]]" example_kernel session0 None token1
      "Some True" "CreateFace [[0, 0], [1, 0]] None"]
  by simp

text \<open>
  C10. A shape-creation call that meets its precondition and returns uses one name, the
  one given or the one synthesized: the object registered is the result of
  \<open>assign_name\<close> with that name, it is registered by one \<open>add\<close> under that name,
  and the string returned is the confirmation quoting that name. The session changes in
  that one entry only: every other name keeps its object, and the list of names is the
  same when the name was present and gains the name at its end otherwise.
\<close>

theorem creation_uses_one_name:
  assumes "invoke K s c tok = Inr (msg, s')" and "precondition c"
  shows "\<exists>raw obj. assign_name K raw (name_of_call c tok) = Inr obj
           \<and> s' = snd (add s (name_of_call c tok) obj)
           \<and> msg = confirmation (shape_kind c) (name_of_call c tok)
           \<and> get s' (name_of_call c tok) = obj
           \<and> (\<forall>other. other \<noteq> name_of_call c tok \<longrightarrow> get s' other = get s other)
           \<and> get_all_names s'
               = (if name_of_call c tok \<in> set (get_all_names s) then get_all_names s
                  else get_all_names s @ [name_of_call c tok])"
proof -
  from invoke_created [OF assms] obtain raw obj where
    "assign_name K raw (name_of_call c tok) = Inr obj"
    "s' = snd (add s (name_of_call c tok) obj)"
    "msg = confirmation (shape_kind c) (name_of_call c tok)"
    by blast
  then show ?thesis
    by (intro exI [of _ raw] exI [of _ obj]) (simp add: get_add_same get_add_other names_add)
qed

theorem creation_uses_one_name_witness:
  "invoke example_kernel session0 (CreateFace [[0, 0, 0], [1, 0, 0], [1, 1, 0]] (Some ''f1'')) token1
     = Inr (''A face with name f1 has been created and registered'',
            \<lparr>items = [(''f1'', Some (Shape ''Face'' [(''name'', ''f1'')]))], messages = 0\<rparr>)
   \<and> precondition (CreateFace [[0, 0, 0], [1, 0, 0], [1, 1, 0]] (Some ''f1''))
   \<and> (\<exists>raw obj. assign_name example_kernel raw ''f1'' = Inr obj
         \<and> \<lparr>items = [(''f1'', Some (Shape ''Face'' [(''name'', ''f1'')]))], messages = 0\<rparr>
             = snd (add session0 ''f1'' obj)
         \<and> get \<lparr>items = [(''f1'', Some (Shape ''Face'' [(''name'', ''f1'')]))], messages = 0\<rparr> ''f1''
             = obj)"
proof -
  let ?c = "CreateFace [[0, 0, 0], [1, 0, 0], [1, 1, 0]] (Some ''f1'')"
  let ?s = "\<lparr>items = [(''f1'', Some (Shape ''Face'' [(''name'', ''f1'')]))], messages = 0\<rparr>
              :: example_object TopologicSession"
  have e: "invoke example_kernel session0 ?c token1
             = Inr (''A face with name f1 has been created and registered'', ?s)"
    by (simp add: create_face_def exn_bind_def Let_def assign_name_def example_kernel_def
          example_set_dictionary_def add_def session0_def init_def store0_def list_new_def)
  have p: "precondition ?c" by simp
  have n: "name_of_call ?c token1 = ''f1''" by (simp add: name_of_call_def)
  from creation_uses_one_name [OF e p] have
    "\<exists>raw obj. assign_name example_kernel raw ''f1'' = Inr obj
         \<and> ?s = snd (add session0 ''f1'' obj) \<and> get ?s ''f1'' = obj"
    unfolding n by blast
  with e p show ?thesis by blast
qed



text \<open>
  C7. A lookup of a name that the session does not hold does not raise: \<open>get\<close>
  returns \<open>None\<close> and \<open>get_object_info\<close> returns its message. When \<open>get\<close> finds
  an object, \<open>get_object_info\<close> returns the name of its type; for a \<open>Vertex\<close> it
  returns the coordinates the kernel gives for it instead (and raises only where that
  call of the kernel does).
\<close>

theorem lookup_absent:
  "(name \<notin> set (get_all_names s) \<longrightarrow>
      get s name = None
      \<and> get_object_info K s name
          = Inr (''No object found with the name '' @ apostrophe @ name @ apostrophe @ ''.''))
   \<and> (get s name = Some obj \<longrightarrow>
        (type_name K obj \<noteq> ''Vertex'' \<longrightarrow>
           get_object_info K s name
             = Inr (''Object '' @ apostrophe @ name @ apostrophe @ '' is of type ''
                    @ apostrophe @ type_name K obj @ apostrophe @ ''.''))
        \<and> (type_name K obj = ''Vertex'' \<longrightarrow>
           get_object_info K s name
             = (case Vertex_Coordinates K obj of
                  Inl e \<Rightarrow> Inl e
                | Inr coords \<Rightarrow>
                    Inr (''Object '' @ apostrophe @ name @ apostrophe
                         @ '' is a Vertex located at coordinates '' @ str_floats K coords @ ''.''))))"
  by (auto simp: get_object_info_def get_def get_all_names_def dict_get_absent exn_bind_def split: sum.splits)

theorem lookup_absent_witness:
  "''c2'' \<notin> set (get_all_names (snd (add session0 ''c1'' (Some (Shape ''Cell'' [])))))
   \<and> get (snd (add session0 ''c1'' (Some (Shape ''Cell'' [])))) ''c2'' = None
   \<and> get_object_info example_kernel (snd (add session0 ''c1'' (Some (Shape ''Cell'' [])))) ''c2''
        = Inr (''No object found with the name '' @ apostrophe @ ''c2'' @ apostrophe @ ''.'')
   \<and> get (snd (add session0 ''c1'' (Some (Shape ''Cell'' [])))) ''c1'' = Some (Shape ''Cell'' [])
   \<and> type_name example_kernel (Shape ''Cell'' []) \<noteq> ''Vertex''
   \<and> get_object_info example_kernel (snd (add session0 ''c1'' (Some (Shape ''Cell'' [])))) ''c1''
        = Inr (''Object '' @ apostrophe @ ''c1'' @ apostrophe @ '' is of type ''
               @ apostrophe @ ''Cell'' @ apostrophe @ ''.'')
   \<and> get (snd (add session0 ''v'' (Some (Shape ''Vertex'' [])))) ''v'' = Some (Shape ''Vertex'' [])
   \<and> get_object_info example_kernel (snd (add session0 ''v'' (Some (Shape ''Vertex'' [])))) ''v''
        = Inr (''Object '' @ apostrophe @ ''v'' @ apostrophe
               @ '' is a Vertex located at coordinates [0.0, 0.0, 0.0].'')"
  using lookup_absent [of "''c2''" "snd (add session0 ''c1'' (Some (Shape ''Cell'' [])))"
                          example_kernel "Shape ''Cell'' []"]
    lookup_absent [of "''c1''" "snd (add session0 ''c1'' (Some (Shape ''Cell'' [])))"
                          example_kernel "Shape ''Cell'' []"]
    lookup_absent [of "''v''" "snd (add session0 ''v'' (Some (Shape ''Vertex'' [])))"
                          example_kernel "Shape ''Vertex'' []"]
  by (simp add: session0_def init_def store0_def list_new_def add_def get_all_names_def
        dict_keys_def get_def example_kernel_def)

text \<open>
  C6 (as amended). \<open>list_session_items\<close> returns \<open>The session is empty.\<close> when the
  session holds no item. Otherwise it returns the heading \<open>Current session items:\<close>
  and, separated by newlines, one entry \<open>- name\<close> for every name of the session, in
  the order of \<open>get_all_names\<close>; when no name of the session contains a newline these
  entries are exactly the lines of the text after the heading, one line for each name.
\<close>

theorem list_session_items_text:
  "(items s = [] \<longrightarrow> list_session_items s = ''The session is empty.'')
   \<and> (items s \<noteq> [] \<longrightarrow>
        list_session_items s
          = ''Current session items:'' @ newline
            @ join newline (map (\<lambda>name. ''- '' @ name) (get_all_names s)))
   \<and> (items s \<noteq> [] \<and> (\<forall>name\<in>set (get_all_names s). CHR 0x0A \<notin> set name) \<longrightarrow>
        lines_of (list_session_items s)
          = ''Current session items:'' # map (\<lambda>name. ''- '' @ name) (get_all_names s))"
proof -
  have empty: "items s = [] \<Longrightarrow> list_session_items s = ''The session is empty.''"
    by (simp add: list_session_items_def get_all_names_def dict_keys_def)
  have body: "list_session_items s
          = ''Current session items:'' @ newline
            @ join newline (map (\<lambda>name. ''- '' @ name) (get_all_names s))"
    if "items s \<noteq> []"
  proof -
    from that have "get_all_names s \<noteq> []"
      by (simp add: get_all_names_def dict_keys_def)
    then show ?thesis by (simp only: list_session_items_def Let_def if_False)
  qed
  have "lines_of (list_session_items s)
          = ''Current session items:'' # map (\<lambda>name. ''- '' @ name) (get_all_names s)"
    if ne: "items s \<noteq> []" and nl: "\<forall>name\<in>set (get_all_names s). CHR 0x0A \<notin> set name"
  proof -
    let ?ls = "map (\<lambda>name. ''- '' @ name) (get_all_names s)"
    have "?ls \<noteq> []" using ne by (simp add: get_all_names_def dict_keys_def)
    moreover have "\<forall>x\<in>set ?ls. CHR 0x0A \<notin> set x" using nl by auto
    ultimately have "lines_of (join newline ?ls) = ?ls" by (rule lines_of_join)
    moreover have "CHR 0x0A \<notin> set ''Current session items:''" by simp
    ultimately show ?thesis
      using body [OF ne] lines_of_line [of "''Current session items:''" "join newline ?ls"]
      by simp
  qed
  with empty body show ?thesis by blast
qed

theorem list_session_items_text_witness:
  "items session0 = []
   \<and> list_session_items session0 = ''The session is empty.''
   \<and> items (snd (add session0 ''c1'' (Some (Shape ''Cell'' [])))) \<noteq> []
   \<and> list_session_items (snd (add session0 ''c1'' (Some (Shape ''Cell'' []))))
        = ''Current session items:'' @ newline @ ''- c1''
   \<and> lines_of (list_session_items (snd (add session0 ''c1'' (Some (Shape ''Cell'' [])))))
        = [''Current session items:'', ''- c1'']"
  using list_session_items_text [of session0]
    list_session_items_text [of "snd (add session0 ''c1'' (Some (Shape ''Cell'' [])))"]
  by (simp add: session0_def init_def store0_def list_new_def add_def get_all_names_def
        dict_keys_def newline_def)

text \<open>
  Against C6 as stated: the tools take any string as a name, and the entry of a name that
  contains a newline is not one line of the text. After \<open>create_cube\<close> with the name
  \<open>two_line_name\<close> the session holds one name and the text has two lines after the
  heading, neither of which is the entry of that name.
\<close>

theorem list_session_items_text_counterexample:
  "invoke example_kernel session0 (CreateCube 1 None (Some two_line_name)) token1
     = Inr (''A cube with name '' @ two_line_name @ '' has been created and registered'',
            \<lparr>items = [(two_line_name, Some (Shape ''Cell'' [(''name'', two_line_name)]))],
             messages = 0\<rparr>)
   \<and> get_all_names
         \<lparr>items = [(two_line_name, Some (Shape ''Cell'' [(''name'', two_line_name)]))],
          messages = 0\<rparr>
       = [two_line_name]
   \<and> lines_of (list_session_items
         \<lparr>items = [(two_line_name, Some (Shape ''Cell'' [(''name'', two_line_name)]))],
          messages = 0\<rparr>)
       = [''Current session items:'', ''- x'', ''y'']
   \<and> ''- '' @ two_line_name
       \<notin> set (lines_of (list_session_items
             \<lparr>items = [(two_line_name, Some (Shape ''Cell'' [(''name'', two_line_name)]))],
              messages = 0\<rparr>))"
proof -
  let ?s = "\<lparr>items = [(two_line_name, Some (Shape ''Cell'' [(''name'', two_line_name)]))],
              messages = 0\<rparr> :: example_object TopologicSession"
  have e: "invoke example_kernel session0 (CreateCube 1 None (Some two_line_name)) token1
     = Inr (''A cube with name '' @ two_line_name @ '' has been created and registered'', ?s)"
    by (simp add: create_cube_def origin_vertex_def exn_bind_def Let_def assign_name_def
          example_kernel_def example_set_dictionary_def add_def session0_def init_def store0_def
          list_new_def)
  have n: "get_all_names ?s = [two_line_name]"
    by (simp add: get_all_names_def dict_keys_def)
  have l: "lines_of (list_session_items ?s) = [''Current session items:'', ''- x'', ''y'']"
    by (simp add: list_session_items_def get_all_names_def dict_keys_def Let_def
          two_line_name_def newline_def)
  have "''- '' @ two_line_name \<notin> set [''Current session items:'', ''- x'', ''y'']"
    by (simp add: two_line_name_def newline_def)
  with e n l show ?thesis by simp
qed

end
